theory Spec2Isabelle
  imports Complex_Main "HOL-Library.Word"
begin

section \<open>Floating-point values\<close>

text \<open>
  The meter computes in C++ floating point. A value is a finite number, one of the two
  infinities or not-a-number. Finite arithmetic is taken exactly (over \<open>real\<close>): the
  rounding of the arithmetic operations, overflow to infinity and underflow to zero are
  not modelled, and neither is the sign of zero. The special values follow IEEE 754: not-a-number propagates through every
  operation and makes every ordered comparison false, the logarithm of zero is minus
  infinity, the square root and the logarithm of a negative number are not-a-number.
\<close>

datatype fval = Fin real | PInf | NInf | NaN

fun fadd :: "fval \<Rightarrow> fval \<Rightarrow> fval" where
  "fadd (Fin a) (Fin b) = Fin (a + b)"
| "fadd NaN _ = NaN"
| "fadd _ NaN = NaN"
| "fadd PInf NInf = NaN"
| "fadd NInf PInf = NaN"
| "fadd PInf _ = PInf"
| "fadd _ PInf = PInf"
| "fadd NInf _ = NInf"
| "fadd _ NInf = NInf"

fun fmul :: "fval \<Rightarrow> fval \<Rightarrow> fval" where
  "fmul (Fin a) (Fin b) = Fin (a * b)"
| "fmul NaN _ = NaN"
| "fmul _ NaN = NaN"
| "fmul (Fin a) PInf = (if a = 0 then NaN else if 0 < a then PInf else NInf)"
| "fmul (Fin a) NInf = (if a = 0 then NaN else if 0 < a then NInf else PInf)"
| "fmul PInf (Fin b) = (if b = 0 then NaN else if 0 < b then PInf else NInf)"
| "fmul NInf (Fin b) = (if b = 0 then NaN else if 0 < b then NInf else PInf)"
| "fmul PInf PInf = PInf"
| "fmul NInf NInf = PInf"
| "fmul PInf NInf = NInf"
| "fmul NInf PInf = NInf"

text \<open>
  Every divisor of the program is an unsigned count converted to floating point or the
  positive constant \<open>MIC_REF_AMPL\<close>, so a zero divisor is the positive zero.
\<close>

fun fdiv :: "fval \<Rightarrow> fval \<Rightarrow> fval" where
  "fdiv (Fin a) (Fin b) =
     (if b = 0 then (if a = 0 then NaN else if 0 < a then PInf else NInf) else Fin (a / b))"
| "fdiv NaN _ = NaN"
| "fdiv _ NaN = NaN"
| "fdiv (Fin a) _ = Fin 0"
| "fdiv PInf (Fin b) = (if 0 \<le> b then PInf else NInf)"
| "fdiv NInf (Fin b) = (if 0 \<le> b then NInf else PInf)"
| "fdiv _ _ = NaN"

fun fsqrt :: "fval \<Rightarrow> fval" where
  "fsqrt (Fin a) = (if a < 0 then NaN else Fin (sqrt a))"
| "fsqrt PInf = PInf"
| "fsqrt NInf = NaN"
| "fsqrt NaN = NaN"

fun flog10 :: "fval \<Rightarrow> fval" where
  "flog10 (Fin a) = (if a < 0 then NaN else if a = 0 then NInf else Fin (log 10 a))"
| "flog10 PInf = PInf"
| "flog10 NInf = NaN"
| "flog10 NaN = NaN"

fun fgt :: "fval \<Rightarrow> fval \<Rightarrow> bool" where
  "fgt (Fin a) (Fin b) = (b < a)"
| "fgt NaN _ = False"
| "fgt _ NaN = False"
| "fgt _ PInf = False"
| "fgt PInf _ = True"
| "fgt NInf _ = False"
| "fgt (Fin a) NInf = True"

definition flt :: "fval \<Rightarrow> fval \<Rightarrow> bool" where
  "flt a b = fgt b a"

fun fisnan :: "fval \<Rightarrow> bool" where
  "fisnan NaN = True"
| "fisnan _ = False"


section \<open>Constants and configuration (spl-meter.cpp, lines 14 to 35)\<close>

definition LEQ_PERIOD :: nat where
  "LEQ_PERIOD = 1"

definition MIC_OFFSET_DB :: real where
  "MIC_OFFSET_DB = 0"

definition MIC_SENSITIVITY :: real where
  "MIC_SENSITIVITY = - 26"

definition MIC_REF_DB :: real where
  "MIC_REF_DB = 94"

definition MIC_BITS :: nat where
  "MIC_BITS = 24"

definition MIC_REF_AMPL :: real where
  "MIC_REF_AMPL = 10 powr (MIC_SENSITIVITY / 20) * ((2 ^ (MIC_BITS - 1)) - 1)"

text \<open>
  A filter object of sos-iir-filter.h: \<open>filter(input, output, n)\<close> writes the filtered
  samples, returns the sum of their squares and keeps its delay line between calls. The
  header is not among the sources, so a filter is a parameter: a function from its
  state and the input block to the output block, the sum of squares and the new state.
\<close>

type_synonym 's sos_filter = "'s \<Rightarrow> fval list \<Rightarrow> fval list \<times> fval \<times> 's"

text \<open>
  \<open>SAMPLE_RATE\<close>, \<open>SAMPLE_BITS\<close>, \<open>MIC_OVERLOAD_DB\<close> and \<open>MIC_NOISE_DB\<close> are macros of
  headers that are not among the sources (board.h, spl-meter.h); \<open>MIC_EQUALIZER\<close> and
  \<open>WEIGHTING\<close> name filter objects of sos-iir-filter.h. They are the fields of the
  configuration.
\<close>

record ('e, 'w) board =
  SAMPLE_RATE :: nat
  SAMPLE_BITS :: nat
  MIC_OVERLOAD_DB :: fval
  MIC_NOISE_DB :: fval
  MIC_EQUALIZER :: "'e sos_filter"
  WEIGHTING :: "'w sos_filter"

text \<open>
  \<open>MIC_CONVERT(s)\<close> is \<open>s >> (SAMPLE_BITS - MIC_BITS)\<close> on a signed 32-bit sample; the shift
  of a negative value is arithmetic. The C++ expression is defined for a shift count from
  0 to 31 only, that is for \<open>MIC_BITS \<le> SAMPLE_BITS\<close> and \<open>SAMPLE_BITS - MIC_BITS < 32\<close>.
\<close>

definition MIC_CONVERT :: "nat \<Rightarrow> 32 word \<Rightarrow> 32 word" where
  "MIC_CONVERT sample_bits s = signed_drop_bit (sample_bits - MIC_BITS) s"

section \<open>The meter (class SPLMeter)\<close>

text \<open>
  The members \<open>Leq_samples\<close> and \<open>Leq_sum_sqr\<close> of the class, and the delay lines of the
  two filter objects. The sample counter is an unsigned machine integer in the program;
  it stays below the window size plus one block, so it is a natural number here.
\<close>

record ('e, 'w) SPLMeter =
  eq_state :: 'e
  wt_state :: 'w
  Leq_samples :: nat
  Leq_sum_sqr :: fval

text \<open>
  The store of a signed 32-bit integer into a \<open>float\<close> (line 79) rounds it to the nearest
  single-precision number, ties to even: a magnitude of at most \<open>2 ^ 24\<close> is kept as it
  is, a longer one keeps its 24 leading bits. \<open>bit_length\<close> is the number of bits of a
  magnitude; the result of \<open>int_to_float\<close> is the integer that the stored number equals.
\<close>

fun bit_length :: "nat \<Rightarrow> nat" where
  "bit_length n = (if n = 0 then 0 else Suc (bit_length (n div 2)))"

declare bit_length.simps [simp del]

definition int_to_float :: "int \<Rightarrow> int" where
  "int_to_float v =
     (let a = nat \<bar>v\<bar> in
      if a \<le> 2 ^ 24 then v
      else
        let e = bit_length a - 24;
            q = a div 2 ^ e;
            r = a mod 2 ^ e;
            q1 = (if 2 ^ (e - 1) < r \<or> (r = 2 ^ (e - 1) \<and> odd q) then q + 1 else q)
        in sgn v * int (q1 * 2 ^ e))"

text \<open>
  Lines 78 and 79: every sample is shifted and stored as a floating-point number. With
  32-bit samples the shifted value has 24 bits and the store is exact.
\<close>

definition convert_samples :: "('e, 'w) board \<Rightarrow> 32 word list \<Rightarrow> fval list" where
  "convert_samples cfg raw =
     map (\<lambda>s. Fin (real_of_int (int_to_float (sint (MIC_CONVERT (SAMPLE_BITS cfg) s))))) raw"

text \<open>
  Lines 91 and 110: \<open>MIC_OFFSET_DB + MIC_REF_DB + 20 * std::log10(rms / MIC_REF_AMPL)\<close>.
\<close>

definition to_dB :: "fval \<Rightarrow> fval" where
  "to_dB rms =
     fadd (fadd (Fin MIC_OFFSET_DB) (Fin MIC_REF_DB))
          (fmul (Fin 20) (flog10 (fdiv rms (Fin MIC_REF_AMPL))))"

text \<open>Line 90 and 91: the short-block level from the equalized sum of squares.\<close>

definition short_SPL_dB :: "fval \<Rightarrow> nat \<Rightarrow> fval" where
  "short_SPL_dB sum_sqr_SPL n = to_dB (fsqrt (fdiv sum_sqr_SPL (Fin (real n))))"

text \<open>Lines 94 to 98: the running sum after the overload and noise-floor tests.\<close>

definition Leq_clamp :: "('e, 'w) board \<Rightarrow> fval \<Rightarrow> fval \<Rightarrow> fval" where
  "Leq_clamp cfg dB sum_sqr =
     (if fgt dB (MIC_OVERLOAD_DB cfg) then MIC_OVERLOAD_DB cfg
      else if fisnan dB \<or> flt dB (MIC_NOISE_DB cfg) then MIC_NOISE_DB cfg
      else sum_sqr)"

text \<open>
  Lines 83 to 102, on the converted block: the two filters in series, the short-block
  level, the overload and noise-floor tests and the two accumulations. The meter after
  the statement \<open>Leq_samples += samples.size()\<close>.
\<close>

definition process_samples ::
  "('e, 'w) board \<Rightarrow> fval list \<Rightarrow> ('e, 'w) SPLMeter \<Rightarrow> ('e, 'w) SPLMeter" where
  "process_samples cfg samples st =
     (case MIC_EQUALIZER cfg (eq_state st) samples of
        (equalized, sum_sqr_SPL, es) \<Rightarrow>
          (case WEIGHTING cfg (wt_state st) equalized of
             (weighted, sum_sqr_weighted, ws) \<Rightarrow>
               st\<lparr>eq_state := es, wt_state := ws,
                  Leq_sum_sqr :=
                    fadd (Leq_clamp cfg (short_SPL_dB sum_sqr_SPL (length samples))
                            (Leq_sum_sqr st))
                         sum_sqr_weighted,
                  Leq_samples := Leq_samples st + length samples\<rparr>))"

text \<open>
  Lines 73 to 102: the block \<open>raw\<close> is what \<open>i2sRead\<close> left in the buffer; it is converted
  in place and processed.
\<close>

definition accumulate ::
  "('e, 'w) board \<Rightarrow> 32 word list \<Rightarrow> ('e, 'w) SPLMeter \<Rightarrow> ('e, 'w) SPLMeter" where
  "accumulate cfg raw st = process_samples cfg (convert_samples cfg raw) st"

text \<open>Lines 71 to 114: the optional Leq value and the meter after the call.\<close>

definition readMicrophoneData ::
  "('e, 'w) board \<Rightarrow> 32 word list \<Rightarrow> ('e, 'w) SPLMeter \<Rightarrow> fval option \<times> ('e, 'w) SPLMeter" where
  "readMicrophoneData cfg raw st =
     (let st1 = accumulate cfg raw st in
      if SAMPLE_RATE cfg * LEQ_PERIOD \<le> Leq_samples st1
      then (Some (to_dB (fsqrt (fdiv (Leq_sum_sqr st1) (Fin (real (Leq_samples st1)))))),
            st1\<lparr>Leq_sum_sqr := Fin 0, Leq_samples := 0\<rparr>)
      else (None, st1))"

text \<open>
  The caller reads block after block: the values returned by the successive calls and
  the meter after the last one.
\<close>

fun readings ::
  "('e, 'w) board \<Rightarrow> ('e, 'w) SPLMeter \<Rightarrow> 32 word list list \<Rightarrow> fval option list \<times> ('e, 'w) SPLMeter" where
  "readings cfg st [] = ([], st)"
| "readings cfg st (b # bs) =
     (case readMicrophoneData cfg b st of
        (r, st1) \<Rightarrow> (case readings cfg st1 bs of (rs, st2) \<Rightarrow> (r # rs, st2)))"

section \<open>Timestamps (timestamp.h)\<close>

text \<open>The member \<open>tm\<close> is a \<open>std::time_t\<close>, a signed count of seconds since the epoch.\<close>

record Timestamp =
  tm :: int

definition valid :: "Timestamp \<Rightarrow> bool" where
  "valid t = (8 * 3600 * 2 \<le> tm t)"

section \<open>Observations and example inputs\<close>

text \<open>
  The cumulative sample count since the last emission, read off what a caller
  observes: the values returned so far and the sizes of the blocks. It starts from the
  count \<open>c\<close> the meter held before the first call and restarts from zero after every
  call that returned a value.
\<close>

fun pending :: "nat \<Rightarrow> ('a option \<times> nat) list \<Rightarrow> nat" where
  "pending c [] = c"
| "pending c ((r, n) # xs) = pending (if r = None then c + n else 0) xs"

text \<open>
  Modelled from the spec: the null/identity filter (\<open>None\<close> of sos-iir-filter.h, which is
  not among the sources). It leaves the samples as they are, computes the sum of
  squares directly on them and has no delay line.
\<close>

definition None_filter :: "unit sos_filter" where
  "None_filter s xs = (xs, foldl (\<lambda>acc x. fadd acc (fmul x x)) (Fin 0) xs, s)"

text \<open>
  Modelled from the spec: a filter stage as the spec describes it, causal, with a delay
  line kept between calls, returning the sum of squares of its output (the filter
  objects of sos-iir-filter.h are not among the sources). This one is the first
  difference \<open>y[i] = x[i] - x[i - 1]\<close>, a single second-order section with the numerator
  \<open>1 - z^-1\<close>; its delay line holds the last input sample.
\<close>

fun diff_run :: "fval \<Rightarrow> fval list \<Rightarrow> fval list \<times> fval" where
  "diff_run w [] = ([], w)"
| "diff_run w (x # xs) =
     (case diff_run x xs of (ys, w1) \<Rightarrow> (fadd x (fmul (Fin (- 1)) w) # ys, w1))"



text \<open>
  A configuration to evaluate the meter on: 48000 samples per second, 32-bit samples,
  an overload point of 116 dB, a noise floor of 29 dB, no equalizer and no weighting.
\<close>

definition example_board :: "(unit, unit) board" where
  "example_board =
     \<lparr>SAMPLE_RATE = 48000, SAMPLE_BITS = 32, MIC_OVERLOAD_DB = Fin 116,
      MIC_NOISE_DB = Fin 29, MIC_EQUALIZER = None_filter, WEIGHTING = None_filter\<rparr>"

text \<open>The meter as constructed, and a meter seven eighths into a window.\<close>

definition init_meter :: "(unit, unit) SPLMeter" where
  "init_meter = \<lparr>eq_state = (), wt_state = (), Leq_samples = 0, Leq_sum_sqr = Fin 0\<rparr>"

definition late_meter :: "(unit, unit) SPLMeter" where
  "late_meter = \<lparr>eq_state = (), wt_state = (), Leq_samples = 42000, Leq_sum_sqr = Fin 1000\<rparr>"

text \<open>
  Blocks of 6000 samples: silence, and the largest positive 24-bit value in the upper
  bits of every 32-bit sample.
\<close>

definition silent_block :: "32 word list" where
  "silent_block = replicate 6000 0"

definition loud_block :: "32 word list" where
  "loud_block = replicate 6000 0x7FFFFF00"




section \<open>Sample conversion\<close>

lemma sint_MIC_CONVERT:
  "sint (MIC_CONVERT sb s) = sint s div 2 ^ (sb - MIC_BITS)"
  by (simp add: MIC_CONVERT_def sint_signed_drop_bit_eq drop_bit_eq_div)

lemma int_to_float_exact: "\<bar>v\<bar> \<le> 2 ^ 24 \<Longrightarrow> int_to_float v = v"
  by (auto simp: int_to_float_def Let_def nat_le_iff)

lemma shifted_sample_fits:
  assumes "k = 7 \<or> k = 8"
  shows "\<bar>sint (s :: 32 word) div 2 ^ k\<bar> \<le> 2 ^ 24"
proof -
  have "- (2 ^ 31) \<le> sint s" "sint s < 2 ^ 31"
    using sint_ge [of s] sint_lt [of s] by simp_all
  with assms show ?thesis by auto
qed

lemma convert_samples_div:
  assumes "7 \<le> SAMPLE_BITS cfg - MIC_BITS" and "SAMPLE_BITS cfg \<le> 32"
  shows "convert_samples cfg raw =
     map (\<lambda>s. Fin (real_of_int (sint s div 2 ^ (SAMPLE_BITS cfg - MIC_BITS)))) raw"
proof -
  have "SAMPLE_BITS cfg - MIC_BITS = 7 \<or> SAMPLE_BITS cfg - MIC_BITS = 8"
    using assms by (simp add: MIC_BITS_def) arith
  then have "int_to_float (sint s div 2 ^ (SAMPLE_BITS cfg - MIC_BITS))
      = sint s div 2 ^ (SAMPLE_BITS cfg - MIC_BITS)" for s :: "32 word"
    by (rule shifted_sample_fits [THEN int_to_float_exact])
  then show ?thesis
    by (simp add: convert_samples_def sint_MIC_CONVERT)
qed

lemma store_rounds_24_bit_samples:
  "convert_samples (example_board\<lparr>SAMPLE_BITS := 24\<rparr>) [16777217, 16777219]
     = [Fin 16777216, Fin 16777220]"
  by (simp add: convert_samples_def MIC_CONVERT_def MIC_BITS_def int_to_float_def Let_def
      bit_length.simps)

text \<open>
  C8. With a sample width between the microphone's 24 bits and the 32 bits of a sample,
  the conversion of a raw sample is its arithmetic right shift by
  \<open>SAMPLE_BITS - MIC_BITS\<close>: the floor division of its signed value by
  \<open>2 ^ (SAMPLE_BITS - MIC_BITS)\<close>, which keeps the sign. It is applied to every sample of
  the block, and when the shift is by at least 7 bits (as with 32-bit samples) the
  stored numbers are exactly these quotients and the filters receive them.
\<close>

theorem MIC_CONVERT_floor_division:
  assumes "MIC_BITS \<le> SAMPLE_BITS cfg" and "SAMPLE_BITS cfg \<le> 32"
  shows "sint (MIC_CONVERT (SAMPLE_BITS cfg) s) = sint s div 2 ^ (SAMPLE_BITS cfg - MIC_BITS) \<and>
    (sint (MIC_CONVERT (SAMPLE_BITS cfg) s) < 0) = (sint s < 0) \<and>
    convert_samples cfg raw =
      map (\<lambda>s. Fin (real_of_int (int_to_float (sint s div 2 ^ (SAMPLE_BITS cfg - MIC_BITS))))) raw \<and>
    (7 \<le> SAMPLE_BITS cfg - MIC_BITS \<longrightarrow>
       convert_samples cfg raw =
         map (\<lambda>s. Fin (real_of_int (sint s div 2 ^ (SAMPLE_BITS cfg - MIC_BITS)))) raw \<and>
       accumulate cfg raw st =
         process_samples cfg
           (map (\<lambda>s. Fin (real_of_int (sint s div 2 ^ (SAMPLE_BITS cfg - MIC_BITS)))) raw) st)"
proof -
  have 1: "sint (MIC_CONVERT (SAMPLE_BITS cfg) s) = sint s div 2 ^ (SAMPLE_BITS cfg - MIC_BITS)"
    by (rule sint_MIC_CONVERT)
  have 2: "(sint (MIC_CONVERT (SAMPLE_BITS cfg) s) < 0) = (sint s < 0)"
    by (simp add: sint_MIC_CONVERT pos_imp_zdiv_neg_iff)
  have 3: "convert_samples cfg raw =
      map (\<lambda>s. Fin (real_of_int (int_to_float (sint s div 2 ^ (SAMPLE_BITS cfg - MIC_BITS))))) raw"
    by (simp add: convert_samples_def sint_MIC_CONVERT)
  have 4: "convert_samples cfg raw =
         map (\<lambda>s. Fin (real_of_int (sint s div 2 ^ (SAMPLE_BITS cfg - MIC_BITS)))) raw"
    if "7 \<le> SAMPLE_BITS cfg - MIC_BITS"
    using that assms(2) by (rule convert_samples_div)
  have 5: "accumulate cfg raw st =
         process_samples cfg
           (map (\<lambda>s. Fin (real_of_int (sint s div 2 ^ (SAMPLE_BITS cfg - MIC_BITS)))) raw) st"
    if "7 \<le> SAMPLE_BITS cfg - MIC_BITS"
    unfolding accumulate_def by (simp only: 4 [OF that])
  show ?thesis using 1 2 3 4 5 by blast
qed

theorem MIC_CONVERT_floor_division_witness:
  "MIC_BITS \<le> SAMPLE_BITS example_board \<and> SAMPLE_BITS example_board \<le> 32 \<and>
   7 \<le> SAMPLE_BITS example_board - MIC_BITS \<and>
   sint (MIC_CONVERT (SAMPLE_BITS example_board) (- 256)) = - 1 \<and>
   convert_samples example_board [- 256, 512] = [Fin (- 1), Fin 2]"
proof -
  have h1: "MIC_BITS \<le> SAMPLE_BITS example_board"
    by (simp add: MIC_BITS_def example_board_def)
  have h2: "SAMPLE_BITS example_board \<le> 32"
    by (simp add: example_board_def)
  have k: "SAMPLE_BITS example_board - MIC_BITS = 8"
    by (simp add: MIC_BITS_def example_board_def)
  have g: "7 \<le> SAMPLE_BITS example_board - MIC_BITS"
    by (simp add: k)
  note t = MIC_CONVERT_floor_division [OF h1 h2, of "- 256" "[- 256, 512]"]
  have a: "sint (MIC_CONVERT (SAMPLE_BITS example_board) (- 256)) = - 1"
    using t [THEN conjunct1] by (simp add: k)
  have b: "convert_samples example_board [- 256, 512] = [Fin (- 1), Fin 2]"
    using t [THEN conjunct2, THEN conjunct2, THEN conjunct2, THEN mp, OF g, THEN conjunct1]
    by (simp add: k)
  show ?thesis using h1 h2 g a b by blast
qed

section \<open>Counting samples\<close>

lemma Leq_samples_process_samples:
  "Leq_samples (process_samples cfg xs st) = Leq_samples st + length xs"
  by (simp add: process_samples_def split: prod.splits)

lemma Leq_samples_accumulate:
  "Leq_samples (accumulate cfg raw st) = Leq_samples st + length raw"
  by (simp add: accumulate_def Leq_samples_process_samples convert_samples_def)

lemma fst_read_None_iff:
  "(fst (readMicrophoneData cfg raw st) = None) =
     (Leq_samples st + length raw < SAMPLE_RATE cfg * LEQ_PERIOD)"
  by (auto simp: readMicrophoneData_def Let_def Leq_samples_accumulate)

lemma Leq_samples_read:
  "Leq_samples (snd (readMicrophoneData cfg raw st)) =
     (if fst (readMicrophoneData cfg raw st) = None then Leq_samples st + length raw else 0)"
  by (auto simp: readMicrophoneData_def Let_def Leq_samples_accumulate)

lemma readings_Cons:
  "fst (readings cfg st (b # bs)) =
     fst (readMicrophoneData cfg b st) # fst (readings cfg (snd (readMicrophoneData cfg b st)) bs)"
  by (simp split: prod.splits)

lemma readings_Cons_snd:
  "snd (readings cfg st (b # bs)) =
     snd (readings cfg (snd (readMicrophoneData cfg b st)) bs)"
  by (simp split: prod.splits)


lemma length_readings: "length (fst (readings cfg st bs)) = length bs"
  by (induction bs arbitrary: st) (simp_all add: readings_Cons del: readings.simps(2))

text \<open>
  C1. In every sequence of calls, on blocks of any sizes, a call returns a value exactly
  when the samples counted since the last returned value (or since the start), this
  call's block included, have reached the window size \<open>SAMPLE_RATE * LEQ_PERIOD\<close>. As the
  count restarts after each returned value, every crossing of the threshold returns one
  value and no other call returns any.
\<close>

theorem emits_iff_window_reached:
  "i < length bs \<Longrightarrow>
   (fst (readings cfg st bs) ! i \<noteq> None) =
   (SAMPLE_RATE cfg * LEQ_PERIOD \<le>
      pending (Leq_samples st) (take i (zip (fst (readings cfg st bs)) (map length bs)))
        + length (bs ! i))"
proof (induction bs arbitrary: st i)
  case Nil
  then show ?case by simp
next
  case (Cons b bs)
  show ?case
  proof (cases i)
    case 0
    then show ?thesis
      using fst_read_None_iff [of cfg b st]
      by (simp add: readings_Cons not_less del: readings.simps)
  next
    case (Suc j)
    with Cons.prems have j: "j < length bs" by simp
    show ?thesis
      using Cons.IH [OF j, of "snd (readMicrophoneData cfg b st)"] Suc
      by (simp add: readings_Cons Leq_samples_read del: readings.simps)
  qed
qed

theorem emits_iff_window_reached_witness:
  "(0::nat) < length [silent_block] \<and>
   fst (readings example_board late_meter [silent_block]) ! 0 \<noteq> None"
proof -
  have h: "(0::nat) < length [silent_block]" by simp
  show ?thesis
    using emits_iff_window_reached [OF h, of example_board late_meter]
    by (simp add: example_board_def late_meter_def silent_block_def LEQ_PERIOD_def
        del: readings.simps)
qed

section \<open>The window invariant\<close>

lemma readings_window_invariant:
  "0 < SAMPLE_RATE cfg \<Longrightarrow> Leq_samples st < SAMPLE_RATE cfg * LEQ_PERIOD \<Longrightarrow>
   Leq_samples (snd (readings cfg st bs)) < SAMPLE_RATE cfg * LEQ_PERIOD"
proof (induction bs arbitrary: st)
  case Nil
  then show ?case by simp
next
  case (Cons b bs)
  have "Leq_samples (snd (readMicrophoneData cfg b st)) < SAMPLE_RATE cfg * LEQ_PERIOD"
    using Cons.prems(1) fst_read_None_iff [of cfg b st]
    by (simp add: Leq_samples_read LEQ_PERIOD_def)
  from Cons.IH [OF Cons.prems(1) this] show ?case
    by (simp add: readings_Cons_snd del: readings.simps)
qed

lemma read_emit_resets:
  "SAMPLE_RATE cfg * LEQ_PERIOD \<le> Leq_samples (accumulate cfg b st) \<Longrightarrow>
   fst (readMicrophoneData cfg b st) \<noteq> None \<and>
   Leq_samples (snd (readMicrophoneData cfg b st)) = 0 \<and>
   Leq_sum_sqr (snd (readMicrophoneData cfg b st)) = Fin 0"
  by (simp add: readMicrophoneData_def Let_def)

lemma read_no_emit_keeps:
  "\<not> SAMPLE_RATE cfg * LEQ_PERIOD \<le> Leq_samples (accumulate cfg b st) \<Longrightarrow>
   readMicrophoneData cfg b st = (None, accumulate cfg b st)"
  by (simp add: readMicrophoneData_def Let_def)

text \<open>
  C5. With a positive sample rate, from a meter whose count is below the window size,
  the count is below the window size before every later call. In a call whose count
  reaches or exceeds the window size after the block is added, a value is returned and
  the count and the running sum are both zero afterwards; in any other call nothing is
  returned and the accumulated count and sum are kept.
\<close>

theorem Leq_window_invariant:
  assumes "0 < SAMPLE_RATE cfg"
    and "Leq_samples st < SAMPLE_RATE cfg * LEQ_PERIOD"
    and "st1 = snd (readings cfg st bs)"
  shows "Leq_samples st1 < SAMPLE_RATE cfg * LEQ_PERIOD \<and>
    (SAMPLE_RATE cfg * LEQ_PERIOD \<le> Leq_samples (accumulate cfg b st1) \<longrightarrow>
       fst (readMicrophoneData cfg b st1) \<noteq> None \<and>
       Leq_samples (snd (readMicrophoneData cfg b st1)) = 0 \<and>
       Leq_sum_sqr (snd (readMicrophoneData cfg b st1)) = Fin 0) \<and>
    (\<not> SAMPLE_RATE cfg * LEQ_PERIOD \<le> Leq_samples (accumulate cfg b st1) \<longrightarrow>
       readMicrophoneData cfg b st1 = (None, accumulate cfg b st1))"
  using readings_window_invariant [OF assms(1,2), of bs] assms(3)
    read_emit_resets [of cfg b st1] read_no_emit_keeps [of cfg b st1]
  by blast

theorem Leq_window_invariant_witness:
  "0 < SAMPLE_RATE example_board \<and>
   Leq_samples late_meter < SAMPLE_RATE example_board * LEQ_PERIOD \<and>
   SAMPLE_RATE example_board * LEQ_PERIOD
     \<le> Leq_samples (accumulate example_board silent_block late_meter) \<and>
   fst (readMicrophoneData example_board silent_block late_meter) \<noteq> None \<and>
   Leq_samples (snd (readMicrophoneData example_board silent_block late_meter)) = 0 \<and>
   Leq_sum_sqr (snd (readMicrophoneData example_board silent_block late_meter)) = Fin 0 \<and>
   \<not> SAMPLE_RATE example_board * LEQ_PERIOD
     \<le> Leq_samples (accumulate example_board silent_block init_meter) \<and>
   readMicrophoneData example_board silent_block init_meter
     = (None, accumulate example_board silent_block init_meter)"
proof -
  have h1: "0 < SAMPLE_RATE example_board" by (simp add: example_board_def)
  have h2: "Leq_samples late_meter < SAMPLE_RATE example_board * LEQ_PERIOD"
    by (simp add: example_board_def late_meter_def LEQ_PERIOD_def)
  have h3: "Leq_samples init_meter < SAMPLE_RATE example_board * LEQ_PERIOD"
    by (simp add: example_board_def init_meter_def LEQ_PERIOD_def)
  have a: "SAMPLE_RATE example_board * LEQ_PERIOD
     \<le> Leq_samples (accumulate example_board silent_block late_meter)"
    by (simp add: Leq_samples_accumulate example_board_def late_meter_def LEQ_PERIOD_def
        silent_block_def)
  have b: "\<not> SAMPLE_RATE example_board * LEQ_PERIOD
     \<le> Leq_samples (accumulate example_board silent_block init_meter)"
    by (simp add: Leq_samples_accumulate example_board_def init_meter_def LEQ_PERIOD_def
        silent_block_def)
  show ?thesis
    using Leq_window_invariant [OF h1 h2, of late_meter "[]" silent_block]
      Leq_window_invariant [OF h1 h3, of init_meter "[]" silent_block] h1 h2 a b
    by simp
qed

section \<open>Blocks of 1000 samples at 48000 samples per second\<close>

lemma emits_every_48:
  "\<forall>b\<in>set bs. length b = 1000 \<Longrightarrow> SAMPLE_RATE cfg = 48000 \<Longrightarrow>
   Leq_samples st = 1000 * k \<Longrightarrow> k < 48 \<Longrightarrow> i < length bs \<Longrightarrow>
   (fst (readings cfg st bs) ! i \<noteq> None) = ((i + k) mod 48 = 47)"
proof (induction bs arbitrary: st k i)
  case Nil
  then show ?case by simp
next
  case (Cons b bs)
  have len: "length b = 1000" using Cons.prems(1) by simp
  have emit: "(fst (readMicrophoneData cfg b st) = None) = (k < 47)"
    using Cons.prems(2,3,4) len by (simp add: fst_read_None_iff LEQ_PERIOD_def)
  show ?case
  proof (cases i)
    case 0
    then show ?thesis using emit Cons.prems(4)
      by (simp add: readings_Cons del: readings.simps) arith
  next
    case (Suc j)
    with Cons.prems have j: "j < length bs" by simp
    have all: "\<forall>b\<in>set bs. length b = 1000" using Cons.prems(1) by simp
    show ?thesis
    proof (cases "k < 47")
      case True
      then have "Leq_samples (snd (readMicrophoneData cfg b st)) = 1000 * Suc k"
        using emit len Cons.prems(3) by (simp add: Leq_samples_read)
      from Cons.IH [OF all Cons.prems(2) this _ j] True Suc show ?thesis
        by (simp add: readings_Cons del: readings.simps)
    next
      case False
      then have k: "k = 47" using Cons.prems(4) by simp
      have "Leq_samples (snd (readMicrophoneData cfg b st)) = 1000 * 0"
      proof -
        have "fst (readMicrophoneData cfg b st) \<noteq> None" using emit False by simp
        then show ?thesis by (auto simp: Leq_samples_read)
      qed
      from Cons.IH [OF all Cons.prems(2) this _ j] k Suc show ?thesis
        by (simp add: readings_Cons del: readings.simps)
    qed
  qed
qed

text \<open>
  C7. At 48000 samples per second with a window of one second, from a meter whose count
  is zero, on blocks of 1000 samples: call number \<open>i\<close> (counting from zero) returns a
  value exactly when \<open>i mod 48 = 47\<close>. So in every cycle the 48th call returns a value
  and the 47 calls before it return none.
\<close>

theorem emission_every_48_blocks:
  assumes "SAMPLE_RATE cfg = 48000"
    and "\<forall>b\<in>set bs. length b = 1000"
    and "Leq_samples st = 0"
    and "i < length bs"
  shows "(fst (readings cfg st bs) ! i \<noteq> None) = (i mod 48 = 47)"
  using emits_every_48 [OF assms(2) assms(1), of st 0 i] assms(3,4) by simp

theorem emission_every_48_blocks_witness:
  "SAMPLE_RATE example_board = 48000 \<and>
   Leq_samples init_meter = 0 \<and>
   fst (readings example_board init_meter (replicate 48 (replicate 1000 0))) ! 47 \<noteq> None \<and>
   fst (readings example_board init_meter (replicate 48 (replicate 1000 0))) ! 46 = None"
proof -
  have h1: "SAMPLE_RATE example_board = 48000" by (simp add: example_board_def)
  have h2: "\<forall>b\<in>set (replicate 48 (replicate 1000 (0 :: 32 word))). length b = 1000"
    by simp
  have h3: "Leq_samples init_meter = 0" by (simp add: init_meter_def)
  have h4: "47 < length (replicate 48 (replicate 1000 (0 :: 32 word)))" by simp
  have h5: "46 < length (replicate 48 (replicate 1000 (0 :: 32 word)))" by simp
  show ?thesis
    using emission_every_48_blocks [OF h1 h2 h3 h4] emission_every_48_blocks [OF h1 h2 h3 h5]
      h1 h3
    by simp
qed

section \<open>Levels of finite values\<close>

lemma MIC_REF_AMPL_eq: "MIC_REF_AMPL = 10 powr (- 13 / 10) * 8388607"
  by (simp add: MIC_REF_AMPL_def MIC_SENSITIVITY_def MIC_BITS_def)

lemma MIC_REF_AMPL_pos: "0 < MIC_REF_AMPL"
  by (simp add: MIC_REF_AMPL_eq)

lemma MIC_REF_AMPL_lower: "10000 < MIC_REF_AMPL"
proof -
  have "(10::real) powr (- 2) \<le> 10 powr (- 13 / 10)"
    by (rule powr_mono) simp_all
  moreover have "(10::real) powr (- 2) = 1 / 100"
    by (simp add: powr_minus_divide)
  ultimately have "1 / 100 * 8388607 \<le> MIC_REF_AMPL"
    by (simp add: MIC_REF_AMPL_eq)
  then show ?thesis by simp
qed


lemma flog10_pos: "0 < x \<Longrightarrow> flog10 (Fin x) = Fin (log 10 x)"
  by simp

lemma fdiv_pos: "0 < m \<Longrightarrow> fdiv (Fin r) (Fin m) = Fin (r / m)"
  by simp

lemma fsqrt_fdiv_nonneg:
  assumes "0 \<le> x" and "0 < n"
  shows "fsqrt (fdiv (Fin x) (Fin (real n))) = Fin (sqrt (x / real n))"
proof -
  have n: "0 < real n" using assms(2) by simp
  have "0 \<le> x / real n" using assms(1) n by (simp only: divide_nonneg_pos)
  then have "\<not> x / real n < 0" by (simp only: not_less)
  then show ?thesis by (simp only: fdiv_pos [OF n] fsqrt.simps if_False)
qed

lemma to_dB_Fin_pos:
  assumes "0 < r"
  shows "to_dB (Fin r) = Fin (MIC_OFFSET_DB + MIC_REF_DB + 20 * log 10 (r / MIC_REF_AMPL))"
proof -
  have "0 < r / MIC_REF_AMPL" using assms MIC_REF_AMPL_pos by (rule divide_pos_pos)
  then have "flog10 (fdiv (Fin r) (Fin MIC_REF_AMPL)) = Fin (log 10 (r / MIC_REF_AMPL))"
    by (simp only: fdiv_pos [OF MIC_REF_AMPL_pos] flog10_pos)
  then show ?thesis unfolding to_dB_def by simp
qed

lemma to_dB_zero: "to_dB (Fin 0) = NInf"
  using MIC_REF_AMPL_pos by (simp add: to_dB_def)




lemma flt_Fin: "flt (Fin a) (Fin b) = (a < b)"
  by (simp add: flt_def)

lemma flt_neq: "flt a b \<Longrightarrow> a \<noteq> b"
  by (cases a; cases b) (auto simp: flt_def)

lemma log_ratio_less:
  assumes "0 < x" and "x < y"
  shows "log 10 (x / MIC_REF_AMPL) < log 10 (y / MIC_REF_AMPL)"
proof -
  have "x / MIC_REF_AMPL < y / MIC_REF_AMPL"
    using assms(2) MIC_REF_AMPL_pos by (simp only: divide_strict_right_mono)
  moreover have "0 < x / MIC_REF_AMPL"
    using assms(1) MIC_REF_AMPL_pos by (rule divide_pos_pos)
  moreover have "0 < y / MIC_REF_AMPL"
    using assms MIC_REF_AMPL_pos by (simp only: divide_pos_pos order.strict_trans)
  ultimately show ?thesis
    by (simp only: log_less_cancel_iff [of 10])
qed

lemma to_dB_less:
  assumes "0 < x" and "x < y"
  shows "flt (to_dB (Fin x)) (to_dB (Fin y))"
proof -
  have y: "0 < y" using assms by simp
  show ?thesis
    using log_ratio_less [OF assms]
    by (simp only: to_dB_Fin_pos [OF assms(1)] to_dB_Fin_pos [OF y] flt_Fin)
qed

lemma to_dB_quiet:
  assumes "0 < x" and "x < 1"
  shows "flt (to_dB (Fin x)) (Fin 29)"
proof -
  have p: "(10::real) powr (- 4) = 1 / 10000"
    by (simp add: powr_minus_divide)
  have r: "0 < x / MIC_REF_AMPL"
    using assms(1) MIC_REF_AMPL_pos by (rule divide_pos_pos)
  have "x / MIC_REF_AMPL < 1 / MIC_REF_AMPL"
    using assms(2) MIC_REF_AMPL_pos by (simp only: divide_strict_right_mono)
  also have "1 / MIC_REF_AMPL < 1 / 10000"
    using MIC_REF_AMPL_lower by (simp add: field_simps)
  finally have "x / MIC_REF_AMPL < 10 powr (- 4)"
    by (simp only: p)
  then have "log 10 (x / MIC_REF_AMPL) < log 10 (10 powr (- 4))"
    using r by (simp only: log_less_cancel_iff [of 10] powr_gt_zero)
  then have "log 10 (x / MIC_REF_AMPL) < - 4" by simp
  then show ?thesis
    by (simp add: to_dB_Fin_pos [OF assms(1)] flt_def MIC_OFFSET_DB_def MIC_REF_DB_def)
qed

lemma log10_2_lower: "1 / 5 \<le> log 10 (2::real)"
proof -
  have "(32::real) = 2 powr 5" by simp
  then have "(32::real) powr (1 / 5) = 2 powr (5 * (1 / 5))"
    by (simp only: powr_powr)
  then have e: "(32::real) powr (1 / 5) = 2" by simp
  have "(10::real) powr (1 / 5) \<le> 32 powr (1 / 5)"
    by (rule powr_mono2) simp_all
  then have t: "(10::real) powr (1 / 5) \<le> 2" by (simp only: e)
  have "(1 / 5 \<le> log 10 (2::real)) = (10 powr (1 / 5) \<le> (2::real))"
    by (rule le_log_iff) simp_all
  with t show ?thesis by (simp only:)
qed

lemma to_dB_half_scale:
  assumes "0 < x" and "x < 8388607 / 2"
  shows "flt (to_dB (Fin x)) (Fin 116)"
proof -
  have half: "(8388607 / 2) / MIC_REF_AMPL = 10 powr (13 / 10) / 2"
    by (simp add: MIC_REF_AMPL_eq powr_minus field_simps)
  have "log 10 (x / MIC_REF_AMPL) < log 10 ((8388607 / 2) / MIC_REF_AMPL)"
    using assms by (rule log_ratio_less)
  also have "\<dots> = log 10 (10 powr (13 / 10) / 2)"
    by (simp only: half)
  also have "\<dots> = 13 / 10 - log 10 2"
    by (simp add: log_divide)
  also have "\<dots> \<le> 13 / 10 - 1 / 5"
    using log10_2_lower by simp
  finally have "log 10 (x / MIC_REF_AMPL) < 11 / 10"
    by simp
  then show ?thesis
    by (simp add: to_dB_Fin_pos [OF assms(1)] flt_def MIC_OFFSET_DB_def MIC_REF_DB_def)
qed

section \<open>One call of readMicrophoneData\<close>

lemma accumulate_fields:
  assumes "MIC_EQUALIZER cfg (eq_state st) (convert_samples cfg raw) = (equalized, e, es)"
    and "WEIGHTING cfg (wt_state st) equalized = (weighted, w, ws)"
  shows "accumulate cfg raw st =
     st\<lparr>eq_state := es, wt_state := ws,
        Leq_sum_sqr := fadd (Leq_clamp cfg (short_SPL_dB e (length raw)) (Leq_sum_sqr st)) w,
        Leq_samples := Leq_samples st + length raw\<rparr>"
  using assms by (simp add: accumulate_def process_samples_def convert_samples_def)

lemma read_unfold:
  "readMicrophoneData cfg raw st =
     (if SAMPLE_RATE cfg * LEQ_PERIOD \<le> Leq_samples st + length raw
      then (Some (to_dB (fsqrt (fdiv (Leq_sum_sqr (accumulate cfg raw st))
                                    (Fin (real (Leq_samples st + length raw)))))),
            (accumulate cfg raw st)\<lparr>Leq_sum_sqr := Fin 0, Leq_samples := 0\<rparr>)
      else (None, accumulate cfg raw st))"
  by (simp add: readMicrophoneData_def Let_def Leq_samples_accumulate)



section \<open>The example inputs\<close>

lemma sum_sqr_replicate:
  "foldl (\<lambda>acc x. fadd acc (fmul x x)) (Fin c) (replicate n (Fin a)) = Fin (c + real n * (a * a))"
  by (induction n arbitrary: c) (simp_all add: algebra_simps)

lemma None_filter_replicate:
  "None_filter s (replicate n (Fin a)) = (replicate n (Fin a), Fin (real n * (a * a)), s)"
  using sum_sqr_replicate [of 0 n a] by (simp add: None_filter_def)


lemma example_board_fields:
  "SAMPLE_RATE example_board = 48000"
  "SAMPLE_BITS example_board = 32"
  "MIC_OVERLOAD_DB example_board = Fin 116"
  "MIC_NOISE_DB example_board = Fin 29"
  "MIC_EQUALIZER example_board = None_filter"
  "WEIGHTING example_board = None_filter"
  by (simp_all add: example_board_def)

lemma late_meter_fields:
  "Leq_samples late_meter = 42000"
  "Leq_sum_sqr late_meter = Fin 1000"
  by (simp_all add: late_meter_def)

lemma length_blocks: "length loud_block = 6000" "length silent_block = 6000"
  by (simp_all add: loud_block_def silent_block_def)

lemma convert_silent: "convert_samples example_board silent_block = replicate 6000 (Fin 0)"
  by (simp add: convert_samples_div silent_block_def example_board_fields MIC_BITS_def)

lemma convert_loud: "convert_samples example_board loud_block = replicate 6000 (Fin 8388607)"
  by (simp add: convert_samples_div loud_block_def example_board_fields MIC_BITS_def)

lemma short_SPL_dB_silent: "short_SPL_dB (Fin 0) 6000 = NInf"
  by (simp add: short_SPL_dB_def to_dB_zero)

lemma log_full_scale: "log 10 (8388607 / MIC_REF_AMPL) = 13 / 10"
proof -
  have "8388607 / MIC_REF_AMPL = 10 powr (13 / 10)"
    by (simp add: MIC_REF_AMPL_eq powr_minus field_simps)
  then show ?thesis by simp
qed

lemma short_SPL_dB_loud: "short_SPL_dB (Fin 422212364402694000) 6000 = Fin 120"
proof -
  have "sqrt (8388607 * 8388607) = (8388607 :: real)" by (rule real_sqrt_abs2 [THEN trans]) simp
  then have "sqrt 70368727400449 = (8388607 :: real)" by simp
  then show ?thesis
    by (simp add: short_SPL_dB_def to_dB_Fin_pos log_full_scale MIC_OFFSET_DB_def MIC_REF_DB_def)
qed

lemma example_eq_loud:
  "MIC_EQUALIZER example_board (eq_state late_meter) (convert_samples example_board loud_block)
     = (replicate 6000 (Fin 8388607), Fin 422212364402694000, ())"
  by (simp add: convert_loud example_board_fields None_filter_replicate)

lemma example_wt_loud:
  "WEIGHTING example_board (wt_state late_meter) (replicate 6000 (Fin 8388607))
     = (replicate 6000 (Fin 8388607), Fin 422212364402694000, ())"
  by (simp add: example_board_fields None_filter_replicate)

lemma example_eq_silent:
  "MIC_EQUALIZER example_board (eq_state late_meter) (convert_samples example_board silent_block)
     = (replicate 6000 (Fin 0), Fin 0, ())"
  by (simp add: convert_silent example_board_fields None_filter_replicate)

lemma example_wt_silent:
  "WEIGHTING example_board (wt_state late_meter) (replicate 6000 (Fin 0))
     = (replicate 6000 (Fin 0), Fin 0, ())"
  by (simp add: example_board_fields None_filter_replicate)

lemma loud_overloads:
  "fgt (short_SPL_dB (Fin 422212364402694000) (length loud_block))
       (MIC_OVERLOAD_DB example_board)"
  by (simp add: length_blocks short_SPL_dB_loud example_board_fields)

lemma accumulate_loud:
  "Leq_sum_sqr (accumulate example_board loud_block late_meter)
     = Fin 422212364402694116"
  using loud_overloads
  by (simp add: accumulate_fields [OF example_eq_loud example_wt_loud] Leq_clamp_def
      example_board_fields)

lemma accumulate_silent:
  "Leq_sum_sqr (accumulate example_board silent_block late_meter) = Fin 29"
  by (simp add: accumulate_fields [OF example_eq_silent example_wt_silent] Leq_clamp_def
      example_board_fields length_blocks short_SPL_dB_silent flt_def)

lemma read_loud:
  "fst (readMicrophoneData example_board loud_block late_meter)
     = Some (to_dB (Fin (sqrt (422212364402694116 / 48000))))"
  using fsqrt_fdiv_nonneg [of 422212364402694116 48000]
  by (simp add: read_unfold accumulate_loud length_blocks example_board_fields late_meter_fields
      LEQ_PERIOD_def)

lemma read_silent:
  "fst (readMicrophoneData example_board silent_block late_meter)
     = Some (to_dB (Fin (sqrt (29 / 48000))))"
  using fsqrt_fdiv_nonneg [of 29 48000]
  by (simp add: read_unfold accumulate_silent length_blocks example_board_fields late_meter_fields
      LEQ_PERIOD_def)

lemma sqrt_loud_window_bounds:
  "0 < sqrt (422212364402694116 / 48000 :: real)"
  "sqrt (116 / 48000 :: real) < sqrt (422212364402694116 / 48000)"
  "0 < sqrt (116 / 48000 :: real)"
  "sqrt (422212364402694116 / 48000 :: real) < 8388607 / 2"
proof -
  show "0 < sqrt (422212364402694116 / 48000 :: real)" by simp
  show "sqrt (116 / 48000 :: real) < sqrt (422212364402694116 / 48000)"
    by (rule real_sqrt_less_mono) simp
  show "0 < sqrt (116 / 48000 :: real)" by simp
  have h: "sqrt ((8388607 / 2) * (8388607 / 2)) = (8388607 / 2 :: real)"
    by (simp only: real_sqrt_abs2)
  have "sqrt (422212364402694116 / 48000 :: real) < sqrt ((8388607 / 2) * (8388607 / 2))"
    by (rule real_sqrt_less_mono) simp
  then show "sqrt (422212364402694116 / 48000 :: real) < 8388607 / 2"
    by (simp only: h)
qed

lemma sqrt_silent_window_bounds:
  "0 < sqrt (29 / 48000 :: real)" "sqrt (29 / 48000 :: real) < 1"
proof -
  show "0 < sqrt (29 / 48000 :: real)" by simp
  have "sqrt (29 / 48000 :: real) < sqrt 1"
    by (rule real_sqrt_less_mono) simp
  then show "sqrt (29 / 48000 :: real) < 1" by simp
qed

lemma sentinel_basis_loud:
  "to_dB (fsqrt (fdiv (MIC_OVERLOAD_DB example_board)
                      (Fin (real (Leq_samples late_meter + length loud_block)))))
     = to_dB (Fin (sqrt (116 / 48000)))"
  using fsqrt_fdiv_nonneg [of 116 48000]
  by (simp add: example_board_fields late_meter_fields length_blocks)

section \<open>A constant input through the first difference\<close>

lemma diff_run_constant:
  "diff_run (Fin c) (replicate n (Fin c)) = (replicate n (Fin 0), Fin c)"
  by (induction n) simp_all

lemma diff_run_onset:
  "diff_run (Fin 0) (replicate (Suc n) (Fin c)) = (Fin c # replicate n (Fin 0), Fin c)"
  by (simp add: diff_run_constant)





















section \<open>The short-block level and the accumulation\<close>

text \<open>
  C4. For a block of \<open>N\<close> samples the short-block level is
  \<open>MIC_OFFSET_DB + MIC_REF_DB + 20 * log10 (sqrt (sumSqrEq / N) / MIC_REF_AMPL)\<close>, where
  \<open>sumSqrEq\<close> is the sum of squares returned by the equalizer (before weighting); for a
  positive finite \<open>sumSqrEq\<close> this is the real number of that formula. What is added to
  the running sum (after the clamp decided by that level) is the sum of squares returned
  by the weighting filter, and the sample count grows by \<open>N\<close>.
\<close>

theorem short_level_and_accumulation:
  assumes "MIC_EQUALIZER cfg (eq_state st) (convert_samples cfg raw) = (equalized, sumSqrEq, es)"
    and "WEIGHTING cfg (wt_state st) equalized = (weighted, sumSqrWeighted, ws)"
    and "dB = short_SPL_dB sumSqrEq (length raw)"
  shows "dB = fadd (fadd (Fin MIC_OFFSET_DB) (Fin MIC_REF_DB))
               (fmul (Fin 20)
                  (flog10 (fdiv (fsqrt (fdiv sumSqrEq (Fin (real (length raw)))))
                                (Fin MIC_REF_AMPL)))) \<and>
    (\<forall>x. sumSqrEq = Fin x \<and> 0 < x \<and> 0 < length raw \<longrightarrow>
       dB = Fin (MIC_OFFSET_DB + MIC_REF_DB
                 + 20 * log 10 (sqrt (x / real (length raw)) / MIC_REF_AMPL))) \<and>
    Leq_sum_sqr (accumulate cfg raw st)
      = fadd (Leq_clamp cfg dB (Leq_sum_sqr st)) sumSqrWeighted \<and>
    Leq_samples (accumulate cfg raw st) = Leq_samples st + length raw"
proof -
  have 1: "dB = fadd (fadd (Fin MIC_OFFSET_DB) (Fin MIC_REF_DB))
               (fmul (Fin 20)
                  (flog10 (fdiv (fsqrt (fdiv sumSqrEq (Fin (real (length raw)))))
                                (Fin MIC_REF_AMPL))))"
    by (simp add: assms(3) short_SPL_dB_def to_dB_def)
  have 2: "dB = Fin (MIC_OFFSET_DB + MIC_REF_DB
                 + 20 * log 10 (sqrt (x / real (length raw)) / MIC_REF_AMPL))"
    if "sumSqrEq = Fin x" "0 < x" "0 < length raw" for x
  proof -
    have "0 < x / real (length raw)" using that by simp
    then have "0 < sqrt (x / real (length raw))" by simp
    from to_dB_Fin_pos [OF this] show ?thesis
      using fsqrt_fdiv_nonneg [of x "length raw"] that
      by (simp only: assms(3) short_SPL_dB_def less_imp_le)
  qed
  have 3: "Leq_sum_sqr (accumulate cfg raw st)
      = fadd (Leq_clamp cfg dB (Leq_sum_sqr st)) sumSqrWeighted"
    by (simp add: accumulate_fields [OF assms(1,2)] assms(3))
  show ?thesis using 1 2 3 by (simp add: Leq_samples_accumulate)
qed

theorem short_level_and_accumulation_witness:
  "MIC_EQUALIZER example_board (eq_state late_meter) (convert_samples example_board loud_block)
     = (replicate 6000 (Fin 8388607), Fin 422212364402694000, ()) \<and>
   WEIGHTING example_board (wt_state late_meter) (replicate 6000 (Fin 8388607))
     = (replicate 6000 (Fin 8388607), Fin 422212364402694000, ()) \<and>
   short_SPL_dB (Fin 422212364402694000) (length loud_block)
     = Fin (MIC_OFFSET_DB + MIC_REF_DB
            + 20 * log 10 (sqrt (422212364402694000 / real (length loud_block)) / MIC_REF_AMPL)) \<and>
   Leq_sum_sqr (accumulate example_board loud_block late_meter)
     = fadd (MIC_OVERLOAD_DB example_board) (Fin 422212364402694000) \<and>
   Leq_samples (accumulate example_board loud_block late_meter) = 48000"
proof -
  note t = short_level_and_accumulation [OF example_eq_loud example_wt_loud refl]
  have x: "Fin 422212364402694000 = Fin 422212364402694000 \<and> (0::real) < 422212364402694000 \<and>
      0 < length loud_block"
    by (simp add: length_blocks)
  from t have "short_SPL_dB (Fin 422212364402694000) (length loud_block)
     = Fin (MIC_OFFSET_DB + MIC_REF_DB
            + 20 * log 10 (sqrt (422212364402694000 / real (length loud_block)) / MIC_REF_AMPL))"
    using x by blast
  moreover from t have "Leq_sum_sqr (accumulate example_board loud_block late_meter)
     = fadd (Leq_clamp example_board (short_SPL_dB (Fin 422212364402694000) (length loud_block))
               (Leq_sum_sqr late_meter)) (Fin 422212364402694000)"
    by blast
  then have "Leq_sum_sqr (accumulate example_board loud_block late_meter)
     = fadd (MIC_OVERLOAD_DB example_board) (Fin 422212364402694000)"
    using loud_overloads by (simp only: Leq_clamp_def if_True)
  moreover from t have "Leq_samples (accumulate example_board loud_block late_meter)
     = Leq_samples late_meter + length loud_block"
    by blast
  then have "Leq_samples (accumulate example_board loud_block late_meter) = 48000"
    by (simp add: late_meter_fields length_blocks)
  ultimately show ?thesis
    using example_eq_loud example_wt_loud by blast
qed

text \<open>
  C9. When the overload test fires the running sum after the accumulation is the
  overload threshold plus the weighted sum of squares of the current block; when the
  noise-floor test fires (the overload test having failed) it is the noise-floor
  threshold plus that weighted sum. Whatever was accumulated before is discarded, the
  count still grows by the size of the block, and the test for a full window is made on
  the meter after this accumulation.
\<close>

theorem clamp_then_accumulate:
  assumes "MIC_EQUALIZER cfg (eq_state st) (convert_samples cfg raw) = (equalized, e, es)"
    and "WEIGHTING cfg (wt_state st) equalized = (weighted, w, ws)"
    and "dB = short_SPL_dB e (length raw)"
  shows "(fgt dB (MIC_OVERLOAD_DB cfg) \<longrightarrow>
            Leq_sum_sqr (accumulate cfg raw st) = fadd (MIC_OVERLOAD_DB cfg) w) \<and>
    (\<not> fgt dB (MIC_OVERLOAD_DB cfg) \<and> (fisnan dB \<or> flt dB (MIC_NOISE_DB cfg)) \<longrightarrow>
            Leq_sum_sqr (accumulate cfg raw st) = fadd (MIC_NOISE_DB cfg) w) \<and>
    Leq_samples (accumulate cfg raw st) = Leq_samples st + length raw \<and>
    readMicrophoneData cfg raw st =
      (if SAMPLE_RATE cfg * LEQ_PERIOD \<le> Leq_samples (accumulate cfg raw st)
       then (Some (to_dB (fsqrt (fdiv (Leq_sum_sqr (accumulate cfg raw st))
                                     (Fin (real (Leq_samples (accumulate cfg raw st))))))),
             (accumulate cfg raw st)\<lparr>Leq_sum_sqr := Fin 0, Leq_samples := 0\<rparr>)
       else (None, accumulate cfg raw st))"
proof -
  have "Leq_sum_sqr (accumulate cfg raw st) = fadd (Leq_clamp cfg dB (Leq_sum_sqr st)) w"
    by (simp add: accumulate_fields [OF assms(1,2)] assms(3))
  then show ?thesis
    by (simp add: Leq_clamp_def Leq_samples_accumulate read_unfold)
qed

theorem clamp_then_accumulate_witness:
  "fgt (short_SPL_dB (Fin 422212364402694000) (length loud_block))
       (MIC_OVERLOAD_DB example_board) \<and>
   Leq_sum_sqr (accumulate example_board loud_block late_meter)
     = fadd (MIC_OVERLOAD_DB example_board) (Fin 422212364402694000) \<and>
   \<not> fgt (short_SPL_dB (Fin 0) (length silent_block)) (MIC_OVERLOAD_DB example_board) \<and>
   flt (short_SPL_dB (Fin 0) (length silent_block)) (MIC_NOISE_DB example_board) \<and>
   Leq_sum_sqr (accumulate example_board silent_block late_meter)
     = fadd (MIC_NOISE_DB example_board) (Fin 0)"
proof -
  note l = clamp_then_accumulate [OF example_eq_loud example_wt_loud refl]
  note s = clamp_then_accumulate [OF example_eq_silent example_wt_silent refl]
  have a: "\<not> fgt (short_SPL_dB (Fin 0) (length silent_block)) (MIC_OVERLOAD_DB example_board)"
    by (simp add: length_blocks short_SPL_dB_silent example_board_fields)
  have b: "flt (short_SPL_dB (Fin 0) (length silent_block)) (MIC_NOISE_DB example_board)"
    by (simp add: length_blocks short_SPL_dB_silent flt_def example_board_fields)
  from l loud_overloads
  have "Leq_sum_sqr (accumulate example_board loud_block late_meter)
     = fadd (MIC_OVERLOAD_DB example_board) (Fin 422212364402694000)"
    by blast
  moreover from s a b
  have "Leq_sum_sqr (accumulate example_board silent_block late_meter)
     = fadd (MIC_NOISE_DB example_board) (Fin 0)"
    by blast
  ultimately show ?thesis using loud_overloads a b by blast
qed

section \<open>The overload clamp\<close>

text \<open>
  C2. Seven eighths into a window, a block of 6000 full-scale samples has a short-block
  level of 120 dB, above the overload point of 116 dB, and completes the window. Line 95
  stores the threshold, a number of decibels, as the running sum of squares, and line
  101 adds the weighted sum of squares of the block to it. The value returned is the
  level of the root mean square of that sum. It lies below the overload threshold, and
  it is not the level of the threshold value taken alone as the sum of squares either:
  the Leq emitted after the overloaded block is not the overload threshold.
\<close>

theorem overload_block_Leq:
  "fgt (short_SPL_dB
          (fst (snd (MIC_EQUALIZER example_board (eq_state late_meter)
                       (convert_samples example_board loud_block))))
          (length loud_block))
       (MIC_OVERLOAD_DB example_board) \<and>
   fst (readMicrophoneData example_board loud_block late_meter)
     = Some (to_dB (Fin (sqrt (422212364402694116 / 48000)))) \<and>
   flt (to_dB (Fin (sqrt (422212364402694116 / 48000)))) (MIC_OVERLOAD_DB example_board) \<and>
   fst (readMicrophoneData example_board loud_block late_meter)
     \<noteq> Some (to_dB (fsqrt (fdiv (MIC_OVERLOAD_DB example_board)
                                  (Fin (real (Leq_samples late_meter + length loud_block)))))) \<and>
   fst (readMicrophoneData example_board loud_block late_meter)
     \<noteq> Some (MIC_OVERLOAD_DB example_board)"
proof -
  have 1: "fgt (short_SPL_dB
          (fst (snd (MIC_EQUALIZER example_board (eq_state late_meter)
                       (convert_samples example_board loud_block))))
          (length loud_block))
       (MIC_OVERLOAD_DB example_board)"
    using loud_overloads by (simp only: example_eq_loud fst_conv snd_conv)
  have 2: "to_dB (Fin (sqrt (422212364402694116 / 48000)))
      \<noteq> to_dB (Fin (sqrt (116 / 48000)))"
    using to_dB_less [OF sqrt_loud_window_bounds(3,2), THEN flt_neq] by (rule not_sym)
  have 3: "flt (to_dB (Fin (sqrt (422212364402694116 / 48000)))) (MIC_OVERLOAD_DB example_board)"
    using to_dB_half_scale [OF sqrt_loud_window_bounds(1,4)]
    by (simp only: example_board_fields simp_thms)
  from flt_neq [OF 3]
  have 4: "to_dB (Fin (sqrt (422212364402694116 / 48000))) \<noteq> MIC_OVERLOAD_DB example_board" .
  show ?thesis
    using 1 2 3 4 by (simp only: read_loud sentinel_basis_loud) simp
qed

section \<open>The noise-floor clamp\<close>

text \<open>
  C3. Seven eighths into a window, a block of 6000 zero samples has a short-block level
  of minus infinity, below the noise floor of 29 dB, and completes the window. Line 97
  stores the threshold, a number of decibels, as the running sum of squares. The value
  returned is the level of the root mean square \<open>sqrt (29 / 48000)\<close>: a finite level, but
  one that lies below the noise-floor threshold instead of resting on it.
\<close>

theorem silent_block_Leq:
  "flt (short_SPL_dB
          (fst (snd (MIC_EQUALIZER example_board (eq_state late_meter)
                       (convert_samples example_board silent_block))))
          (length silent_block))
       (MIC_NOISE_DB example_board) \<and>
   fst (readMicrophoneData example_board silent_block late_meter)
     = Some (to_dB (Fin (sqrt (29 / 48000)))) \<and>
   flt (to_dB (Fin (sqrt (29 / 48000)))) (MIC_NOISE_DB example_board) \<and>
   fst (readMicrophoneData example_board silent_block late_meter)
     \<noteq> Some (MIC_NOISE_DB example_board)"
proof -
  have 1: "flt (short_SPL_dB
          (fst (snd (MIC_EQUALIZER example_board (eq_state late_meter)
                       (convert_samples example_board silent_block))))
          (length silent_block))
       (MIC_NOISE_DB example_board)"
    unfolding example_eq_silent fst_conv snd_conv
    by (simp only: length_blocks short_SPL_dB_silent example_board_fields flt_def fgt.simps)
  have 2: "flt (to_dB (Fin (sqrt (29 / 48000)))) (MIC_NOISE_DB example_board)"
    using to_dB_quiet [OF sqrt_silent_window_bounds] by (simp only: example_board_fields simp_thms)
  from flt_neq [OF 2] have 3: "to_dB (Fin (sqrt (29 / 48000))) \<noteq> MIC_NOISE_DB example_board" .
  show ?thesis
    using 1 2 3 by (simp only: read_silent) simp
qed

section \<open>Returned values\<close>










section \<open>Timestamp validity\<close>

text \<open>
  C10. \<open>Timestamp::valid\<close> is true exactly when the stored time is at least 57600 seconds
  past the epoch; a clock that still holds a time below 57600 is reported invalid.
\<close>

theorem valid_iff_57600:
  "valid t = (57600 \<le> tm t) \<and> (valid t = (\<not> tm t < 57600))"
  by (auto simp: valid_def)

end
